theory Spec2Isabelle
  imports Main
begin

section \<open>Request / Reply conformance suite (tck/framework/request\_reply.go)\<close>

subsection \<open>Errors, panics and formatting\<close>

text \<open>
  A Go \<open>error\<close> value coming from the container engine, the network or a library is
  opaque to the code under study: it is only tested against \<open>nil\<close> and passed on.
\<close>

datatype error = Error string

text \<open>
  A verification procedure \<open>T\<close> either returns normally or panics. The panic carries
  either an \<open>error\<close> (\<open>panic(err)\<close>) or a diagnostic string.
\<close>

datatype panic_value = PanicErr error | PanicMsg string

datatype verdict = Completed | Panic panic_value

text \<open>\<open>fmt.Sprintf("%d", n)\<close> for a Go \<open>int\<close>: decimal digits, a minus sign when negative.\<close>

fun digits10 :: "nat \<Rightarrow> string" where
  "digits10 n =
     (if n < 10 then [''0123456789'' ! n]
      else digits10 (n div 10) @ [''0123456789'' ! (n mod 10)])"

declare digits10.simps [simp del]

definition itoa :: "int \<Rightarrow> string" where
  "itoa i = (if i < 0 then CHR ''-'' # digits10 (nat (- i)) else digits10 (nat i))"

text \<open>\<open>fmt.Sprintf("%v", err)\<close> prints the message of the error.\<close>

fun error_string :: "error \<Rightarrow> string" where
  "error_string (Error m) = m"

subsection \<open>The HTTP exchange seen by a verification procedure\<close>

text \<open>
  A request as the cases build it with \<open>http.NewRequest\<close> and \<open>req.Header.Set\<close>: method,
  URL, header map and body.
\<close>

record Request =
  Method :: string
  URL :: string
  ReqHeader :: "string \<rightharpoonup> string list"
  ReqBody :: string

text \<open>
  What the cases read of an \<open>http.Response\<close>: the status code, the header map
  (\<open>map[string][]string\<close>; a missing key reads as the empty slice) and the outcome of
  \<open>ioutil.ReadAll(response.Body)\<close>, which may fail.
\<close>

record Response =
  StatusCode :: int
  Header :: "string \<rightharpoonup> string list"
  Body :: "error + string"

text \<open>
  The surroundings of a case: \<open>Do\<close> sends a request with \<open>http.DefaultClient\<close> and
  yields a response or an error (an error of \<open>http.NewRequest\<close> takes the same
  \<open>panic(err)\<close> path in every case and is folded into \<open>Do\<close>);
  \<open>ParseMediaType\<close> is \<open>mime.ParseMediaType\<close> of the Go library, reduced to the media
  type it returns.
\<close>

record Net =
  Do :: "Request \<Rightarrow> error + Response"
  ParseMediaType :: "string \<Rightarrow> error + string"

definition NewRequest :: "string \<Rightarrow> string \<Rightarrow> string \<Rightarrow> Request" where
  "NewRequest m u b = \<lparr>Method = m, URL = u, ReqHeader = Map.empty, ReqBody = b\<rparr>"

definition Header_Set :: "string \<Rightarrow> string \<Rightarrow> Request \<Rightarrow> Request" where
  "Header_Set k v req = req\<lparr>ReqHeader := (ReqHeader req)(k \<mapsto> [v])\<rparr>"

text \<open>\<open>http.Post(url, contentType, body)\<close>: a POST with the Content-Type header set.\<close>

definition http_Post :: "Net \<Rightarrow> string \<Rightarrow> string \<Rightarrow> string \<Rightarrow> error + Response" where
  "http_Post net u ct b = Do net (Header_Set ''Content-Type'' ct (NewRequest ''POST'' u b))"

text \<open>\<open>response.Header[key]\<close>: the values stored under the key, empty when absent.\<close>

definition header_values :: "Response \<Rightarrow> string \<Rightarrow> string list" where
  "header_values response k = (case Header response k of None \<Rightarrow> [] | Some hs \<Rightarrow> hs)"

subsection \<open>The verification procedures of the suite\<close>

definition url_root :: "int \<Rightarrow> string" where
  "url_root port = ''http://localhost:'' @ itoa port @ ''/''"

definition url_bogus :: "int \<Rightarrow> string" where
  "url_bogus port = ''http://localhost:'' @ itoa port @ ''/bogus''"

definition exposed_only_msg :: string where
  "exposed_only_msg = ''The function function should only be exposed on /''"

definition rr_0001_put :: "int \<Rightarrow> Request" where
  "rr_0001_put port =
     Header_Set ''Content-Type'' ''text/plain'' (NewRequest ''PUT'' (url_root port) ''hello'')"

definition rr_0001_T :: "Net \<Rightarrow> int \<Rightarrow> verdict" where
  "rr_0001_T net port =
     (case http_Post net (url_bogus port) ''text/plain'' ''hello'' of
        Inl err \<Rightarrow> Panic (PanicErr err)
      | Inr response \<Rightarrow>
          (case Body response of
             Inl err \<Rightarrow> Panic (PanicErr err)
           | Inr result \<Rightarrow>
               if ''HELLO'' = result then Panic (PanicMsg exposed_only_msg)
               else
                 (case Do net (rr_0001_put port) of
                    Inl err \<Rightarrow> Panic (PanicErr err)
                  | Inr response2 \<Rightarrow>
                      (case Body response2 of
                         Inl err \<Rightarrow> Panic (PanicErr err)
                       | Inr result2 \<Rightarrow>
                           if ''HELLO'' = result2 then Panic (PanicMsg exposed_only_msg)
                           else Completed))))"

text \<open>
  The two halves of rr-0002 run the same checks with a different Accept header, expected
  body and expected media type; \<open>check_negotiated\<close> is that block, parameterised by the
  three, with the message prefix of the body check.
\<close>

definition rr_0002_request :: "int \<Rightarrow> string \<Rightarrow> Request" where
  "rr_0002_request port accept =
     Header_Set ''Accept'' accept
       (Header_Set ''Content-Type'' ''text/plain'' (NewRequest ''POST'' (url_root port) ''hello''))"

definition check_negotiated :: "Net \<Rightarrow> int \<Rightarrow> string \<Rightarrow> string \<Rightarrow> string \<Rightarrow> verdict" where
  "check_negotiated net port accept expected body_msg =
     (case Do net (rr_0002_request port accept) of
        Inl err \<Rightarrow> Panic (PanicErr err)
      | Inr response \<Rightarrow>
          (case Body response of
             Inl err \<Rightarrow> Panic (PanicErr err)
           | Inr result \<Rightarrow>
               if StatusCode response \<noteq> 200 then
                 Panic (PanicMsg (''Expected http status 200, got '' @ itoa (StatusCode response)))
               else if expected \<noteq> result then Panic (PanicMsg (body_msg @ result))
               else
                 (let hs = header_values response ''Content-Type'' in
                  if length hs \<noteq> 1 then Panic (PanicMsg ''No Content-Type set on response'')
                  else
                    (case ParseMediaType net (hs ! 0) of
                       Inl err \<Rightarrow>
                         Panic (PanicMsg (''Error parsing content-type: '' @ error_string err))
                     | Inr mediaType \<Rightarrow>
                         if mediaType \<noteq> accept then
                           Panic (PanicMsg (''Expected response Content-Type to be set to ''
                                            @ accept @ '', got '' @ mediaType))
                         else Completed))))"

definition rr_0002_T :: "Net \<Rightarrow> int \<Rightarrow> verdict" where
  "rr_0002_T net port =
     (case check_negotiated net port ''text/plain'' ''HELLO''
             ''Expected result as text/plain HELLO, got '' of
        Panic p \<Rightarrow> Panic p
      | Completed \<Rightarrow>
          check_negotiated net port ''application/json'' (CHR 0x22 # ''HELLO'' @ [CHR 0x22])
            (''Expected result as application/json '' @ [CHR 0x22] @ ''HELLO'' @ [CHR 0x22]
             @ '', got ''))"

definition rr_0003_request :: "int \<Rightarrow> Request" where
  "rr_0003_request port =
     Header_Set ''Accept'' ''text/plain''
       (Header_Set ''Content-Type'' ''bogus/content-type''
          (NewRequest ''POST'' (url_root port) ''hello''))"

definition rr_0003_T :: "Net \<Rightarrow> int \<Rightarrow> verdict" where
  "rr_0003_T net port =
     (case Do net (rr_0003_request port) of
        Inl err \<Rightarrow> Panic (PanicErr err)
      | Inr response \<Rightarrow>
          if StatusCode response \<noteq> 415 then
            Panic (PanicMsg (''Expected 415 http code, got '' @ itoa (StatusCode response)))
          else Completed)"

text \<open>The body of rr-0004 is the five letters of hello after an opening double quote.\<close>

definition rr_0004_request :: "int \<Rightarrow> Request" where
  "rr_0004_request port =
     Header_Set ''Accept'' ''text/plain''
       (Header_Set ''Content-Type'' ''application/json''
          (NewRequest ''POST'' (url_root port) (CHR 0x22 # ''hello'')))"

definition rr_0004_T :: "Net \<Rightarrow> int \<Rightarrow> verdict" where
  "rr_0004_T net port =
     (case Do net (rr_0004_request port) of
        Inl err \<Rightarrow> Panic (PanicErr err)
      | Inr response \<Rightarrow>
          if StatusCode response < 500 then
            Panic (PanicMsg (''Expected 5xx http code, got '' @ itoa (StatusCode response)))
          else Completed)"

definition rr_0005_request :: "int \<Rightarrow> Request" where
  "rr_0005_request port =
     Header_Set ''Accept'' ''not/gonna-happen''
       (Header_Set ''Content-Type'' ''text/plain''
          (NewRequest ''POST'' (url_root port) ''hello''))"

definition rr_0005_T :: "Net \<Rightarrow> int \<Rightarrow> verdict" where
  "rr_0005_T net port =
     (case Do net (rr_0005_request port) of
        Inl err \<Rightarrow> Panic (PanicErr err)
      | Inr response \<Rightarrow>
          if StatusCode response \<noteq> 406 then
            Panic (PanicMsg (''Expected 406 http code, got '' @ itoa (StatusCode response)))
          else Completed)"

subsection \<open>The suite\<close>

record Testcase =
  Name :: string
  Description :: string
  Optional :: bool
  Image :: string
  T :: "Net \<Rightarrow> int \<Rightarrow> verdict"

record Suite =
  SuiteName :: string
  SuiteDescription :: string
  Port :: int
  Cases :: "Testcase list"

definition Request_reply :: Suite where
  "Request_reply =
     \<lparr>SuiteName = ''rr'',
      SuiteDescription = ''Request / Reply Interaction'',
      Port = 8080,
      Cases =
        [\<lparr>Name = ''rr-0001'',
          Description = ''MUST NOT reply on paths other than / or methods other than POST'',
          Optional = False, Image = ''upper'', T = rr_0001_T\<rparr>,
         \<lparr>Name = ''rr-0002'',
          Description = ''MUST honor the Accept header'',
          Optional = False, Image = ''upper'', T = rr_0002_T\<rparr>,
         \<lparr>Name = ''rr-0003'',
          Description = ''SHOULD reply with 415 on unrecognized Content-Type'',
          Optional = True, Image = ''upper'', T = rr_0003_T\<rparr>,
         \<lparr>Name = ''rr-0004'',
          Description = ''MUST reply with 5xx on unmarshalling error'',
          Optional = False, Image = ''upper'', T = rr_0004_T\<rparr>,
         \<lparr>Name = ''rr-0005'',
          Description = ''SHOULD reply with 406 on inability to marshall back'',
          Optional = True, Image = ''upper'', T = rr_0005_T\<rparr>]\<rparr>"

subsection \<open>The suite as a package-level variable\<close>







subsection \<open>The default setup strategy\<close>

text \<open>
  The Docker structures handed to \<open>ContainerCreate\<close>: \<open>nat.PortBinding\<close>,
  \<open>container.Config\<close> (image, exposed port set, environment) and
  \<open>container.HostConfig\<close> (the port map). A \<open>nat.Port\<close> is a string.
\<close>

record PortBinding =
  HostIP :: string
  HostPort :: string

record Config =
  ConfigImage :: string
  ExposedPorts :: "string set"
  Env :: "string list"

record HostConfig =
  PortBindings :: "string \<rightharpoonup> PortBinding list"

text \<open>The handle returned by setup: \<open>Container{id, hostPort}\<close>.\<close>

record Container =
  id_Container :: string
  hostPort :: int

text \<open>
  The outside world of one call of the setup function: what the container engine
  (\<open>r.dockerClient\<close>), the port allocator \<open>getFreePort\<close> and the network answer.
  \<open>Dial n\<close> is the answer to the connection attempt number \<open>n\<close> (from zero) of the call,
  so that a service may refuse first and accept later.
\<close>

record World =
  ImagePull :: "string \<Rightarrow> error option"
  getFreePort :: "error + int"
  ContainerCreate :: "Config \<Rightarrow> HostConfig \<Rightarrow> error + string"
  ContainerStart :: "string \<Rightarrow> error option"
  Dial :: "nat \<Rightarrow> string \<Rightarrow> string \<Rightarrow> error option"

text \<open>
  Every external call the setup function makes is logged with its arguments and its
  answer, in the order of the calls. The function makes no other call: in particular it
  has no call that stops or removes a container.
\<close>

datatype event =
  Ev_ImagePull string "error option"
| Ev_getFreePort "error + int"
| Ev_ContainerCreate Config HostConfig "error + string"
| Ev_ContainerStart string "error option"
| Ev_Dial string string "error option"
| Ev_Sleep int

text \<open>\<open>time.Duration\<close> counts nanoseconds; \<open>time.Millisecond\<close> is a million of them.\<close>

definition Millisecond :: int where
  "Millisecond = 1000000"

text \<open>
  The sleep after the failed attempt \<open>i\<close>:
  \<open>10 * time.Millisecond * time.Duration(math.Pow(2, float64(i)))\<close>. For \<open>i < 10\<close> the
  power of two is an exact float and the product stays far below \<open>2 ^ 63\<close>.
\<close>

definition backoff :: "nat \<Rightarrow> int" where
  "backoff i = 10 * Millisecond * 2 ^ i"

definition dial_address :: "int \<Rightarrow> string" where
  "dial_address hp = ''localhost:'' @ itoa hp"

text \<open>
  The loop \<open>for i := 0; i < 10; i = i + 1\<close>, entered at \<open>i\<close> with the current value of
  \<open>err\<close> and the log so far. It returns the value of \<open>err\<close> at the loop's exit and the
  extended log.
\<close>

function probe :: "World \<Rightarrow> int \<Rightarrow> nat \<Rightarrow> error option \<Rightarrow> event list
                    \<Rightarrow> error option \<times> event list" where
  "probe w hp i err tr =
     (if i < 10 then
        (let err' = Dial w i ''tcp'' (dial_address hp);
             tr' = tr @ [Ev_Dial ''tcp'' (dial_address hp) err']
         in if err' = None then (None, tr')
            else probe w hp (i + 1) err' (tr' @ [Ev_Sleep (backoff i)]))
      else (err, tr))"
  by pat_completeness auto
termination
  by (relation "measure (\<lambda>(w, hp, i, err, tr). 10 - i)") auto

declare probe.simps [simp del]

text \<open>
  \<open>setUpContainerUsingPortEnvVar(image, r)\<close>. The arguments that are constant in the
  source (the contexts, the empty pull and start options, the nil networking
  configuration and the empty container name) are left out. The test of \<open>err\<close> after
  \<open>containerPort := nat.Port("4321")\<close> re-reads the \<open>nil\<close> left by \<open>getFreePort\<close> and
  never fires.
\<close>

definition setUpContainerUsingPortEnvVar ::
    "World \<Rightarrow> string \<Rightarrow> event list \<Rightarrow> (error + Container) \<times> event list" where
  "setUpContainerUsingPortEnvVar w img tr0 =
     (let pulled = ImagePull w img;
          tr1 = tr0 @ [Ev_ImagePull img pulled]
      in case pulled of
           Some err \<Rightarrow> (Inl err, tr1)
         | None \<Rightarrow>
             (let free = getFreePort w;
                  tr2 = tr1 @ [Ev_getFreePort free]
              in case free of
                   Inl err \<Rightarrow> (Inl err, tr2)
                 | Inr hp \<Rightarrow>
                     (let hostBinding = \<lparr>HostIP = ''0.0.0.0'', HostPort = itoa hp\<rparr>;
                          containerPort = ''4321'';
                          portBinding = [containerPort \<mapsto> [hostBinding]];
                          config = \<lparr>ConfigImage = img, ExposedPorts = {containerPort},
                                    Env = [''PORT=4321'']\<rparr>;
                          hostConfig = \<lparr>PortBindings = portBinding\<rparr>;
                          created = ContainerCreate w config hostConfig;
                          tr3 = tr2 @ [Ev_ContainerCreate config hostConfig created]
                      in case created of
                           Inl err \<Rightarrow> (Inl err, tr3)
                         | Inr cont_ID \<Rightarrow>
                             (let started = ContainerStart w cont_ID;
                                  tr4 = tr3 @ [Ev_ContainerStart cont_ID started]
                              in case started of
                                   Some err \<Rightarrow> (Inl err, tr4)
                                 | None \<Rightarrow>
                                     (case probe w hp 0 None tr4 of
                                        (Some err, tr5) \<Rightarrow> (Inl err, tr5)
                                      | (None, tr5) \<Rightarrow>
                                          (Inr \<lparr>id_Container = cont_ID, hostPort = hp\<rparr>,
                                           tr5 @ [Ev_Sleep (1000 * Millisecond)]))))))"

text \<open>Readings of a log.\<close>

fun dials :: "event list \<Rightarrow> (string \<times> string \<times> error option) list" where
  "dials [] = []"
| "dials (Ev_Dial n a r # es) = (n, a, r) # dials es"
| "dials (e # es) = dials es"

fun sleeps :: "event list \<Rightarrow> int list" where
  "sleeps [] = []"
| "sleeps (Ev_Sleep d # es) = d # sleeps es"
| "sleeps (e # es) = sleeps es"

fun creates :: "event list \<Rightarrow> (Config \<times> HostConfig) list" where
  "creates [] = []"
| "creates (Ev_ContainerCreate c h r # es) = (c, h) # creates es"
| "creates (e # es) = creates es"

text \<open>
  The containers a log leaves running: those whose \<open>ContainerStart\<close> returned no error.
  The log has no event that stops one.
\<close>

fun running :: "event list \<Rightarrow> string list" where
  "running [] = []"
| "running (Ev_ContainerStart c None # es) = c # running es"
| "running (e # es) = running es"

subsection \<open>The report of a run\<close>

datatype Status = Passed | Failed | Skipped

record CaseOutcome =
  co_name :: string
  co_status :: Status
  co_diagnostic :: "string option"
  co_optional :: bool

fun panic_string :: "panic_value \<Rightarrow> string" where
  "panic_string (PanicErr err) = error_string err"
| "panic_string (PanicMsg m) = m"

text \<open>
  Modelled from the spec: the Runner's handling of one case (the Runner is not part of
  request\_reply.go). Section 4.3: a failed setup gives a Failed outcome with the setup
  error as diagnostic; after a successful setup the verification procedure runs against
  the handle's port, a failure signal gives Failed with the raised diagnostic and normal
  completion gives Passed; the outcome carries the descriptor's optional flag. The first
  argument is what the case meets on its turn: the result of its setup and the network in
  front of its instance.
\<close>

definition run_case :: "(error + Container) \<times> Net \<Rightarrow> Testcase \<Rightarrow> CaseOutcome" where
  "run_case met c =
     (case fst met of
        Inl err \<Rightarrow>
          \<lparr>co_name = Name c, co_status = Failed, co_diagnostic = Some (error_string err),
           co_optional = Optional c\<rparr>
      | Inr handle \<Rightarrow>
          (case T c (snd met) (hostPort handle) of
             Completed \<Rightarrow>
               \<lparr>co_name = Name c, co_status = Passed, co_diagnostic = None,
                co_optional = Optional c\<rparr>
           | Panic p \<Rightarrow>
               \<lparr>co_name = Name c, co_status = Failed, co_diagnostic = Some (panic_string p),
                co_optional = Optional c\<rparr>))"

text \<open>
  Modelled from the spec: \<open>Run\<close> (section 4.3, not part of request\_reply.go) yields one
  Case Outcome per declared case, in declaration order.
\<close>

definition Run :: "Suite \<Rightarrow> (Testcase \<Rightarrow> (error + Container) \<times> Net) \<Rightarrow> CaseOutcome list" where
  "Run suite meets = map (\<lambda>c. run_case (meets c) c) (Cases suite)"

text \<open>
  Modelled from the spec: the derived overall status of a Suite Report (section 3, not
  part of request\_reply.go): Failed if any mandatory Case Outcome is Failed, else Passed.
\<close>

definition overall_status :: "CaseOutcome list \<Rightarrow> Status" where
  "overall_status outcomes =
     (if filter (\<lambda>out. \<not> co_optional out \<and> co_status out = Failed) outcomes = []
      then Passed else Failed)"

subsection \<open>Vocabulary of the properties and sample surroundings\<close>

text \<open>A failed connection attempt of the loop and the sleep that follows it.\<close>

definition failed_attempt :: "World \<Rightarrow> int \<Rightarrow> nat \<Rightarrow> event list" where
  "failed_attempt w hp i =
     [Ev_Dial ''tcp'' (dial_address hp) (Dial w i ''tcp'' (dial_address hp)), Ev_Sleep (backoff i)]"


text \<open>A media-type reader for the samples: the text before the first semicolon.\<close>

definition sample_media_type :: "string \<Rightarrow> error + string" where
  "sample_media_type h = Inr (takeWhile (\<lambda>c. c \<noteq> CHR '';'') h)"

definition plain_response :: "int \<Rightarrow> string \<Rightarrow> string \<Rightarrow> Response" where
  "plain_response code ctype content =
     \<lparr>StatusCode = code, Header = [''Content-Type'' \<mapsto> [ctype]], Body = Inr content\<rparr>"

text \<open>
  A conforming service on port 8080: it upper-cases on POST /, honours Accept, answers 500
  to a JSON body it cannot read, and 404 elsewhere.
\<close>

definition upper_net :: Net where
  "upper_net =
     \<lparr>Do = (\<lambda>req.
         if Method req = ''POST'' \<and> URL req = ''http://localhost:8080/'' then
           (if ReqHeader req ''Content-Type'' = Some [''application/json'']
            then Inr (plain_response 500 ''text/plain'' ''unmarshalling error'')
            else if ReqHeader req ''Accept'' = Some [''application/json'']
            then Inr (plain_response 200 ''application/json'' (CHR 0x22 # ''HELLO'' @ [CHR 0x22]))
            else Inr (plain_response 200 ''text/plain; charset=utf-8'' ''HELLO''))
         else Inr (plain_response 404 ''text/plain'' ''404 page not found'')),
      ParseMediaType = sample_media_type\<rparr>"

text \<open>A service that upper-cases whatever the path and the method, always with status 404.\<close>

definition echo_net :: Net where
  "echo_net =
     \<lparr>Do = (\<lambda>req. Inr (plain_response 404 ''text/plain'' ''HELLO'')),
      ParseMediaType = sample_media_type\<rparr>"

text \<open>A service that answers every request with status 499 and no header.\<close>

definition net499 :: Net where
  "net499 =
     \<lparr>Do = (\<lambda>req. Inr \<lparr>StatusCode = 499, Header = Map.empty, Body = Inr ''nope''\<rparr>),
      ParseMediaType = sample_media_type\<rparr>"

text \<open>
  Worlds for the setup function: the engine pulls, creates \<open>c1\<close> and starts it, port
  32768 is free, and the service accepts connections from attempt \<open>k\<close> on; with
  \<open>k = 10\<close> or more the loop never sees it accept.
\<close>

definition ready_from :: "nat \<Rightarrow> World" where
  "ready_from k =
     \<lparr>ImagePull = (\<lambda>i. None),
      getFreePort = Inr 32768,
      ContainerCreate = (\<lambda>c h. Inr ''c1''),
      ContainerStart = (\<lambda>c. None),
      Dial = (\<lambda>n net addr. if n < k then Some (Error ''connection refused'') else None)\<rparr>"

text \<open>A world whose registry does not have the image.\<close>

definition no_image :: World where
  "no_image = (ready_from 0)\<lparr>ImagePull := (\<lambda>i. Some (Error ''pull access denied''))\<rparr>"

section \<open>Properties\<close>

subsection \<open>Readings of a log and the loop\<close>

lemma dials_append: "dials (xs @ ys) = dials xs @ dials ys"
  by (induction xs rule: dials.induct) simp_all

lemma sleeps_append: "sleeps (xs @ ys) = sleeps xs @ sleeps ys"
  by (induction xs rule: sleeps.induct) simp_all

lemma creates_append: "creates (xs @ ys) = creates xs @ creates ys"
  by (induction xs rule: creates.induct) simp_all

lemma running_append: "running (xs @ ys) = running xs @ running ys"
  by (induction xs rule: running.induct) simp_all

lemma probe_all_fail:
  "i < 10 \<Longrightarrow> \<forall>j. i \<le> j \<and> j < 10 \<longrightarrow> Dial w j ''tcp'' (dial_address hp) \<noteq> None \<Longrightarrow>
   probe w hp i err tr =
     (Dial w 9 ''tcp'' (dial_address hp), tr @ concat (map (failed_attempt w hp) [i..<10]))"
proof (induction w hp i err tr rule: probe.induct)
  case (1 w hp i err tr)
  let ?d = "Dial w i ''tcp'' (dial_address hp)"
  from 1 have ne: "?d \<noteq> None" by simp
  show ?case
  proof (cases "i + 1 < 10")
    case True
    have "probe w hp (i + 1) ?d (tr @ [Ev_Dial ''tcp'' (dial_address hp) ?d] @ [Ev_Sleep (backoff i)])
          = (Dial w 9 ''tcp'' (dial_address hp),
             (tr @ [Ev_Dial ''tcp'' (dial_address hp) ?d] @ [Ev_Sleep (backoff i)])
               @ concat (map (failed_attempt w hp) [i + 1..<10]))"
      using "1.IH" [OF "1.prems"(1) refl refl ne] True "1.prems"(2) by simp
    then show ?thesis
      using ne "1.prems"(1)
      by (subst probe.simps) (simp add: Let_def upt_conv_Cons failed_attempt_def)
  next
    case False
    with "1.prems"(1) have i9: "i = 9" by simp
    show ?thesis
      using ne
      by (subst probe.simps, subst probe.simps) (simp add: i9 Let_def failed_attempt_def)
  qed
qed

lemma probe_first_ok:
  "i \<le> k \<Longrightarrow> k < 10 \<Longrightarrow> Dial w k ''tcp'' (dial_address hp) = None \<Longrightarrow>
   \<forall>j. i \<le> j \<and> j < k \<longrightarrow> Dial w j ''tcp'' (dial_address hp) \<noteq> None \<Longrightarrow>
   probe w hp i err tr =
     (None, tr @ concat (map (failed_attempt w hp) [i..<k])
               @ [Ev_Dial ''tcp'' (dial_address hp) None])"
proof (induction w hp i err tr rule: probe.induct)
  case (1 w hp i err tr)
  let ?d = "Dial w i ''tcp'' (dial_address hp)"
  from 1 have i10: "i < 10" by simp
  show ?case
  proof (cases "i = k")
    case True
    then show ?thesis using "1.prems" by (subst probe.simps) (simp add: Let_def)
  next
    case False
    with "1.prems" have lt: "i < k" by simp
    with "1.prems" have ne: "?d \<noteq> None" by simp
    have "probe w hp (i + 1) ?d (tr @ [Ev_Dial ''tcp'' (dial_address hp) ?d] @ [Ev_Sleep (backoff i)])
          = (None, (tr @ [Ev_Dial ''tcp'' (dial_address hp) ?d] @ [Ev_Sleep (backoff i)])
               @ concat (map (failed_attempt w hp) [i + 1..<k])
               @ [Ev_Dial ''tcp'' (dial_address hp) None])"
      using "1.IH" [OF i10 refl refl ne] lt "1.prems" by simp
    then show ?thesis
      using ne i10 lt
      by (subst probe.simps) (simp add: Let_def upt_conv_Cons failed_attempt_def)
  qed
qed

lemma probe_unfold_fail:
  "i < 10 \<Longrightarrow> Dial w i ''tcp'' (dial_address hp) \<noteq> None \<Longrightarrow>
   probe w hp i err tr =
     probe w hp (i + 1) (Dial w i ''tcp'' (dial_address hp))
       (tr @ failed_attempt w hp i)"
  by (subst probe.simps) (auto simp: Let_def failed_attempt_def)

lemma probe_unfold_ok:
  "i < 10 \<Longrightarrow> Dial w i ''tcp'' (dial_address hp) = None \<Longrightarrow>
   probe w hp i err tr = (None, tr @ [Ev_Dial ''tcp'' (dial_address hp) None])"
  by (subst probe.simps) (simp add: Let_def)

lemma probe_unfold_exit: "\<not> i < 10 \<Longrightarrow> probe w hp i err tr = (err, tr)"
  by (subst probe.simps) simp

lemma probe_dials_le:
  "length (dials (snd (probe w hp i err tr))) \<le> length (dials tr) + (10 - i)"
proof (induction w hp i err tr rule: probe.induct)
  case (1 w hp i err tr)
  show ?case
  proof (cases "i < 10")
    case False
    then show ?thesis by (simp add: probe_unfold_exit)
  next
    case True
    let ?d = "Dial w i ''tcp'' (dial_address hp)"
    show ?thesis
    proof (cases "?d = None")
      case True
      then show ?thesis using \<open>i < 10\<close> by (simp add: probe_unfold_ok dials_append)
    next
      case False
      from "1.IH" [OF \<open>i < 10\<close> refl refl False]
      have "length (dials (snd (probe w hp (i + 1) ?d (tr @ failed_attempt w hp i))))
            \<le> length (dials tr) + 1 + (10 - (i + 1))"
        by (simp add: dials_append failed_attempt_def)
      then show ?thesis using False \<open>i < 10\<close>
        by (simp add: probe_unfold_fail)
    qed
  qed
qed

lemma probe_running: "running (snd (probe w hp i err tr)) = running tr"
proof (induction w hp i err tr rule: probe.induct)
  case (1 w hp i err tr)
  show ?case
  proof (cases "i < 10")
    case False
    then show ?thesis by (simp add: probe_unfold_exit)
  next
    case True
    let ?d = "Dial w i ''tcp'' (dial_address hp)"
    show ?thesis
    proof (cases "?d = None")
      case True
      then show ?thesis using \<open>i < 10\<close> by (simp add: probe_unfold_ok running_append)
    next
      case False
      from "1.IH" [OF \<open>i < 10\<close> refl refl False]
      have "running (snd (probe w hp (i + 1) ?d (tr @ failed_attempt w hp i))) = running tr"
        by (simp add: running_append failed_attempt_def)
      then show ?thesis using False \<open>i < 10\<close>
        by (simp add: probe_unfold_fail)
    qed
  qed
qed

lemma probe_creates: "creates (snd (probe w hp i err tr)) = creates tr"
proof (induction w hp i err tr rule: probe.induct)
  case (1 w hp i err tr)
  show ?case
  proof (cases "i < 10")
    case False
    then show ?thesis by (simp add: probe_unfold_exit)
  next
    case True
    let ?d = "Dial w i ''tcp'' (dial_address hp)"
    show ?thesis
    proof (cases "?d = None")
      case True
      then show ?thesis using \<open>i < 10\<close> by (simp add: probe_unfold_ok creates_append)
    next
      case False
      from "1.IH" [OF \<open>i < 10\<close> refl refl False]
      have "creates (snd (probe w hp (i + 1) ?d (tr @ failed_attempt w hp i))) = creates tr"
        by (simp add: creates_append failed_attempt_def)
      then show ?thesis using False \<open>i < 10\<close>
        by (simp add: probe_unfold_fail)
    qed
  qed
qed

text \<open>Either some attempt below ten is the first to succeed, or all ten fail.\<close>

lemma first_success:
  fixes P :: "nat \<Rightarrow> bool"
  shows "(\<exists>k<10. P k \<and> (\<forall>j<k. \<not> P j)) \<or> (\<forall>j<10. \<not> P j)"
proof (cases "\<exists>k<10. P k")
  case True
  then obtain k0 where k0: "k0 < 10" "P k0" by blast
  from k0(2) obtain k where k: "P k" "\<forall>j<k. \<not> P j"
    using exists_least_iff [of P] by blast
  have "\<not> k0 < k" using k(2) k0(2) by blast
  then have "k < 10" using k0(1) by simp
  then show ?thesis using k by blast
next
  case False
  then show ?thesis by blast
qed

lemma backoff_not_settle: "i < 10 \<Longrightarrow> backoff i \<noteq> 1000 * Millisecond"
proof -
  assume "i < 10"
  then have "i \<in> {0, 1, 2, 3, 4, 5, 6, 7, 8, 9}" by auto
  then show ?thesis by (auto simp: backoff_def Millisecond_def)
qed

lemma backoff_bounds: "i < 10 \<Longrightarrow> 0 < backoff i \<and> backoff i < 2 ^ 63"
proof -
  assume "i < 10"
  then have "i \<in> {0, 1, 2, 3, 4, 5, 6, 7, 8, 9}" by auto
  then show ?thesis by (auto simp: backoff_def Millisecond_def)
qed

lemma setup_pull_fails:
  "ImagePull w img = Some e \<Longrightarrow>
   setUpContainerUsingPortEnvVar w img tr = (Inl e, tr @ [Ev_ImagePull img (Some e)])"
  by (simp add: setUpContainerUsingPortEnvVar_def Let_def)

lemma setup_port_fails:
  "ImagePull w img = None \<Longrightarrow> getFreePort w = Inl e \<Longrightarrow>
   setUpContainerUsingPortEnvVar w img tr =
     (Inl e, tr @ [Ev_ImagePull img None, Ev_getFreePort (Inl e)])"
  by (simp add: setUpContainerUsingPortEnvVar_def Let_def)

lemma setup_create_fails:
  "ImagePull w img = None \<Longrightarrow> getFreePort w = Inr hp \<Longrightarrow>
   cfg = \<lparr>ConfigImage = img, ExposedPorts = {''4321''}, Env = [''PORT=4321'']\<rparr> \<Longrightarrow>
   hcfg = \<lparr>PortBindings = [''4321'' \<mapsto> [\<lparr>HostIP = ''0.0.0.0'', HostPort = itoa hp\<rparr>]]\<rparr> \<Longrightarrow>
   ContainerCreate w cfg hcfg = Inl e \<Longrightarrow>
   setUpContainerUsingPortEnvVar w img tr =
     (Inl e, tr @ [Ev_ImagePull img None, Ev_getFreePort (Inr hp),
                   Ev_ContainerCreate cfg hcfg (Inl e)])"
  by (simp add: setUpContainerUsingPortEnvVar_def Let_def)

lemma setup_start_fails:
  "ImagePull w img = None \<Longrightarrow> getFreePort w = Inr hp \<Longrightarrow>
   cfg = \<lparr>ConfigImage = img, ExposedPorts = {''4321''}, Env = [''PORT=4321'']\<rparr> \<Longrightarrow>
   hcfg = \<lparr>PortBindings = [''4321'' \<mapsto> [\<lparr>HostIP = ''0.0.0.0'', HostPort = itoa hp\<rparr>]]\<rparr> \<Longrightarrow>
   ContainerCreate w cfg hcfg = Inr c \<Longrightarrow> ContainerStart w c = Some e \<Longrightarrow>
   setUpContainerUsingPortEnvVar w img tr =
     (Inl e, tr @ [Ev_ImagePull img None, Ev_getFreePort (Inr hp),
                   Ev_ContainerCreate cfg hcfg (Inr c), Ev_ContainerStart c (Some e)])"
  by (simp add: setUpContainerUsingPortEnvVar_def Let_def)

lemma setup_reaches_probe:
  "ImagePull w img = None \<Longrightarrow> getFreePort w = Inr hp \<Longrightarrow>
   cfg = \<lparr>ConfigImage = img, ExposedPorts = {''4321''}, Env = [''PORT=4321'']\<rparr> \<Longrightarrow>
   hcfg = \<lparr>PortBindings = [''4321'' \<mapsto> [\<lparr>HostIP = ''0.0.0.0'', HostPort = itoa hp\<rparr>]]\<rparr> \<Longrightarrow>
   ContainerCreate w cfg hcfg = Inr c \<Longrightarrow> ContainerStart w c = None \<Longrightarrow>
   tr4 = tr @ [Ev_ImagePull img None, Ev_getFreePort (Inr hp),
               Ev_ContainerCreate cfg hcfg (Inr c), Ev_ContainerStart c None] \<Longrightarrow>
   setUpContainerUsingPortEnvVar w img tr =
     (case probe w hp 0 None tr4 of
        (Some err, tr5) \<Rightarrow> (Inl err, tr5)
      | (None, tr5) \<Rightarrow>
          (Inr \<lparr>id_Container = c, hostPort = hp\<rparr>, tr5 @ [Ev_Sleep (1000 * Millisecond)]))"
  by (simp add: setUpContainerUsingPortEnvVar_def Let_def)

text \<open>The two ways the loop, entered at zero, can end.\<close>

lemma probe_from_zero:
  "(\<exists>k<10. Dial w k ''tcp'' (dial_address hp) = None
       \<and> (\<forall>j<k. Dial w j ''tcp'' (dial_address hp) \<noteq> None)
       \<and> probe w hp 0 err tr =
           (None, tr @ concat (map (failed_attempt w hp) [0..<k])
                     @ [Ev_Dial ''tcp'' (dial_address hp) None]))
   \<or> ((\<forall>j<10. Dial w j ''tcp'' (dial_address hp) \<noteq> None)
       \<and> probe w hp 0 err tr =
           (Dial w 9 ''tcp'' (dial_address hp),
            tr @ concat (map (failed_attempt w hp) [0..<10])))"
proof -
  let ?P = "\<lambda>k. Dial w k ''tcp'' (dial_address hp) = None"
  from first_success [of ?P]
  show ?thesis
  proof
    assume "\<exists>k<10. ?P k \<and> (\<forall>j<k. \<not> ?P j)"
    then obtain k where k: "k < 10" "?P k" "\<forall>j<k. \<not> ?P j" by blast
    have "probe w hp 0 err tr =
           (None, tr @ concat (map (failed_attempt w hp) [0..<k])
                     @ [Ev_Dial ''tcp'' (dial_address hp) None])"
      using probe_first_ok [of 0 k w hp err tr] k by simp
    with k show ?thesis by blast
  next
    assume all: "\<forall>j<10. \<not> ?P j"
    have "probe w hp 0 err tr =
           (Dial w 9 ''tcp'' (dial_address hp),
            tr @ concat (map (failed_attempt w hp) [0..<10]))"
      using probe_all_fail [of 0 w hp err tr] all by simp
    with all show ?thesis by blast
  qed
qed

lemma dials_failed_attempts:
  "dials (concat (map (failed_attempt w hp) [i..<k])) =
     map (\<lambda>j. (''tcp'', dial_address hp, Dial w j ''tcp'' (dial_address hp))) [i..<k]"
  by (induction k) (simp_all add: dials_append failed_attempt_def)

lemma sleeps_failed_attempts:
  "sleeps (concat (map (failed_attempt w hp) [i..<k])) = map backoff [i..<k]"
  by (induction k) (simp_all add: sleeps_append failed_attempt_def)

lemma running_failed_attempts: "running (concat (map (failed_attempt w hp) [i..<k])) = []"
  by (induction k) (simp_all add: running_append failed_attempt_def)

lemma set_failed_attempts:
  "set (concat (map (failed_attempt w hp) [i..<k])) =
     (\<Union>j\<in>{i..<k}. {Ev_Dial ''tcp'' (dial_address hp) (Dial w j ''tcp'' (dial_address hp)),
                     Ev_Sleep (backoff j)})"
  by (auto simp: failed_attempt_def)

subsection \<open>Setup failures and running containers\<close>

text \<open>
  C1, as stated (no container is left running when setup returns an error), fails: in
  the world where the engine starts container \<open>c1\<close> and the service never accepts a
  connection, setup returns the connection error while \<open>c1\<close> is running.
\<close>

theorem setup_error_leaves_container_running:
  "fst (setUpContainerUsingPortEnvVar (ready_from 10) ''upper'' []) =
     Inl (Error ''connection refused'')
   \<and> running (snd (setUpContainerUsingPortEnvVar (ready_from 10) ''upper'' [])) = [''c1'']"
proof -
  let ?cfg = "\<lparr>ConfigImage = ''upper'', ExposedPorts = {''4321''}, Env = [''PORT=4321'']\<rparr>"
  let ?hcfg = "\<lparr>PortBindings = [''4321'' \<mapsto> [\<lparr>HostIP = ''0.0.0.0'', HostPort = itoa 32768\<rparr>]]\<rparr>"
  let ?tr4 = "[] @ [Ev_ImagePull ''upper'' None, Ev_getFreePort (Inr 32768),
               Ev_ContainerCreate ?cfg ?hcfg (Inr ''c1''), Ev_ContainerStart ''c1'' None]"
  have p: "probe (ready_from 10) 32768 0 None ?tr4 =
             (Dial (ready_from 10) 9 ''tcp'' (dial_address 32768),
              ?tr4 @ concat (map (failed_attempt (ready_from 10) 32768) [0..<10]))"
    by (rule probe_all_fail) (simp_all add: ready_from_def)
  have "setUpContainerUsingPortEnvVar (ready_from 10) ''upper'' [] =
          (case probe (ready_from 10) 32768 0 None ?tr4 of
             (Some err, tr5) \<Rightarrow> (Inl err, tr5)
           | (None, tr5) \<Rightarrow>
               (Inr \<lparr>id_Container = ''c1'', hostPort = 32768\<rparr>,
                tr5 @ [Ev_Sleep (1000 * Millisecond)]))"
    by (rule setup_reaches_probe [where cfg = ?cfg and hcfg = ?hcfg])
       (simp_all add: ready_from_def)
  then show ?thesis
    unfolding p by (simp add: ready_from_def running_append running_failed_attempts)
qed

text \<open>
  C1, amended. When setup returns an error, one of two things happened. Either the error
  came from the image pull, the port allocation, the container creation or the
  container start: then no connection was attempted and the call left no container
  running that was not running before. Or the four steps succeeded and all ten
  connection attempts failed: then the error is that of the tenth attempt, and the
  container the call started is still running, since setup never stops it.
\<close>

theorem setup_error_running:
  assumes "fst (setUpContainerUsingPortEnvVar w img tr) = Inl e"
  shows "(running (snd (setUpContainerUsingPortEnvVar w img tr)) = running tr
            \<and> dials (snd (setUpContainerUsingPortEnvVar w img tr)) = dials tr)
         \<or> (\<exists>hp c. getFreePort w = Inr hp \<and> ContainerStart w c = None
               \<and> (\<forall>j<10. Dial w j ''tcp'' (dial_address hp) \<noteq> None)
               \<and> Dial w 9 ''tcp'' (dial_address hp) = Some e
               \<and> length (dials (snd (setUpContainerUsingPortEnvVar w img tr)))
                   = length (dials tr) + 10
               \<and> running (snd (setUpContainerUsingPortEnvVar w img tr)) = running tr @ [c])"
proof (cases "ImagePull w img")
  case (Some e1)
  then show ?thesis
    by (simp add: setup_pull_fails running_append dials_append)
next
  case None
  note pull = this
  show ?thesis
  proof (cases "getFreePort w")
    case (Inl e1)
    with pull show ?thesis
      by (simp add: setup_port_fails running_append dials_append)
  next
    case (Inr hp)
    note port = this
    define cfg where "cfg = \<lparr>ConfigImage = img, ExposedPorts = {''4321''}, Env = [''PORT=4321'']\<rparr>"
    define hcfg where
      "hcfg = \<lparr>PortBindings = [''4321'' \<mapsto> [\<lparr>HostIP = ''0.0.0.0'', HostPort = itoa hp\<rparr>]]\<rparr>"
    show ?thesis
    proof (cases "ContainerCreate w cfg hcfg")
      case (Inl e1)
      from setup_create_fails [OF pull port cfg_def hcfg_def Inl]
      show ?thesis by (simp add: running_append dials_append)
    next
      case (Inr c)
      note create = this
      show ?thesis
      proof (cases "ContainerStart w c")
        case (Some e1)
        from setup_start_fails [OF pull port cfg_def hcfg_def create Some]
        show ?thesis by (simp add: running_append dials_append)
      next
        case None
        note start = this
        define tr4 where
          "tr4 = tr @ [Ev_ImagePull img None, Ev_getFreePort (Inr hp),
                       Ev_ContainerCreate cfg hcfg (Inr c), Ev_ContainerStart c None]"
        note su = setup_reaches_probe [OF pull port cfg_def hcfg_def create start tr4_def]
        from probe_from_zero [of w hp None tr4]
        show ?thesis
        proof
          assume "\<exists>k<10. Dial w k ''tcp'' (dial_address hp) = None
                   \<and> (\<forall>j<k. Dial w j ''tcp'' (dial_address hp) \<noteq> None)
                   \<and> probe w hp 0 None tr4 =
                       (None, tr4 @ concat (map (failed_attempt w hp) [0..<k])
                                 @ [Ev_Dial ''tcp'' (dial_address hp) None])"
          then have "\<exists>h. fst (setUpContainerUsingPortEnvVar w img tr) = Inr h"
            using su by auto
          with assms show ?thesis by simp
        next
          assume a: "(\<forall>j<10. Dial w j ''tcp'' (dial_address hp) \<noteq> None)
                   \<and> probe w hp 0 None tr4 =
                       (Dial w 9 ''tcp'' (dial_address hp),
                        tr4 @ concat (map (failed_attempt w hp) [0..<10]))"
          then have "Dial w 9 ''tcp'' (dial_address hp) \<noteq> None" by simp
          then obtain e9 where e9: "Dial w 9 ''tcp'' (dial_address hp) = Some e9" by blast
          with a su have res: "setUpContainerUsingPortEnvVar w img tr =
              (Inl e9, tr4 @ concat (map (failed_attempt w hp) [0..<10]))"
            by simp
          with assms have "e9 = e" by simp
          with res e9 a port start show ?thesis
            by (simp add: tr4_def running_append dials_append running_failed_attempts
                          dials_failed_attempts)
        qed
      qed
    qed
  qed
qed

theorem setup_error_running_witness:
  "fst (setUpContainerUsingPortEnvVar no_image ''upper'' []) = Inl (Error ''pull access denied'')
   \<and> running (snd (setUpContainerUsingPortEnvVar no_image ''upper'' [])) = []
   \<and> dials (snd (setUpContainerUsingPortEnvVar no_image ''upper'' [])) = []"
proof -
  have h: "fst (setUpContainerUsingPortEnvVar no_image ''upper'' []) =
             Inl (Error ''pull access denied'')"
    by (simp add: setUpContainerUsingPortEnvVar_def no_image_def ready_from_def Let_def)
  have d: "dials (snd (setUpContainerUsingPortEnvVar no_image ''upper'' [])) = []"
    by (simp add: setUpContainerUsingPortEnvVar_def no_image_def ready_from_def Let_def)
  show ?thesis using h d setup_error_running [OF h] by simp
qed

text \<open>The five ways through the setup function.\<close>

lemma setup_cases:
  obtains
    (pull) e where
      "ImagePull w img = Some e"
      "setUpContainerUsingPortEnvVar w img tr = (Inl e, tr @ [Ev_ImagePull img (Some e)])"
  | (port) e where
      "ImagePull w img = None" "getFreePort w = Inl e"
      "setUpContainerUsingPortEnvVar w img tr =
         (Inl e, tr @ [Ev_ImagePull img None, Ev_getFreePort (Inl e)])"
  | (create) hp cfg hcfg e where
      "ImagePull w img = None" "getFreePort w = Inr hp"
      "cfg = \<lparr>ConfigImage = img, ExposedPorts = {''4321''}, Env = [''PORT=4321'']\<rparr>"
      "hcfg = \<lparr>PortBindings = [''4321'' \<mapsto> [\<lparr>HostIP = ''0.0.0.0'', HostPort = itoa hp\<rparr>]]\<rparr>"
      "ContainerCreate w cfg hcfg = Inl e"
      "setUpContainerUsingPortEnvVar w img tr =
         (Inl e, tr @ [Ev_ImagePull img None, Ev_getFreePort (Inr hp),
                       Ev_ContainerCreate cfg hcfg (Inl e)])"
  | (start) hp cfg hcfg c e where
      "ImagePull w img = None" "getFreePort w = Inr hp"
      "cfg = \<lparr>ConfigImage = img, ExposedPorts = {''4321''}, Env = [''PORT=4321'']\<rparr>"
      "hcfg = \<lparr>PortBindings = [''4321'' \<mapsto> [\<lparr>HostIP = ''0.0.0.0'', HostPort = itoa hp\<rparr>]]\<rparr>"
      "ContainerCreate w cfg hcfg = Inr c" "ContainerStart w c = Some e"
      "setUpContainerUsingPortEnvVar w img tr =
         (Inl e, tr @ [Ev_ImagePull img None, Ev_getFreePort (Inr hp),
                       Ev_ContainerCreate cfg hcfg (Inr c), Ev_ContainerStart c (Some e)])"
  | (probing) hp cfg hcfg c tr4 where
      "ImagePull w img = None" "getFreePort w = Inr hp"
      "cfg = \<lparr>ConfigImage = img, ExposedPorts = {''4321''}, Env = [''PORT=4321'']\<rparr>"
      "hcfg = \<lparr>PortBindings = [''4321'' \<mapsto> [\<lparr>HostIP = ''0.0.0.0'', HostPort = itoa hp\<rparr>]]\<rparr>"
      "ContainerCreate w cfg hcfg = Inr c" "ContainerStart w c = None"
      "tr4 = tr @ [Ev_ImagePull img None, Ev_getFreePort (Inr hp),
                   Ev_ContainerCreate cfg hcfg (Inr c), Ev_ContainerStart c None]"
      "setUpContainerUsingPortEnvVar w img tr =
         (case probe w hp 0 None tr4 of
            (Some err, tr5) \<Rightarrow> (Inl err, tr5)
          | (None, tr5) \<Rightarrow>
              (Inr \<lparr>id_Container = c, hostPort = hp\<rparr>, tr5 @ [Ev_Sleep (1000 * Millisecond)]))"
proof (cases "ImagePull w img")
  case (Some e)
  show ?thesis by (rule pull [OF Some setup_pull_fails [OF Some]])
next
  case None
  note p = this
  show ?thesis
  proof (cases "getFreePort w")
    case (Inl e)
    show ?thesis by (rule port [OF p Inl setup_port_fails [OF p Inl]])
  next
    case (Inr hp)
    note q = this
    define cfg where "cfg = \<lparr>ConfigImage = img, ExposedPorts = {''4321''}, Env = [''PORT=4321'']\<rparr>"
    define hcfg where
      "hcfg = \<lparr>PortBindings = [''4321'' \<mapsto> [\<lparr>HostIP = ''0.0.0.0'', HostPort = itoa hp\<rparr>]]\<rparr>"
    show ?thesis
    proof (cases "ContainerCreate w cfg hcfg")
      case (Inl e)
      show ?thesis
        by (rule create [OF p q cfg_def hcfg_def Inl
                           setup_create_fails [OF p q cfg_def hcfg_def Inl]])
    next
      case (Inr c)
      note cr = this
      show ?thesis
      proof (cases "ContainerStart w c")
        case (Some e)
        show ?thesis
          by (rule start [OF p q cfg_def hcfg_def cr Some
                            setup_start_fails [OF p q cfg_def hcfg_def cr Some]])
      next
        case None
        show ?thesis
          by (rule probing [OF p q cfg_def hcfg_def cr None refl
                              setup_reaches_probe [OF p q cfg_def hcfg_def cr None refl]])
      qed
    qed
  qed
qed

lemma probe_snd_creates:
  "probe w hp i err tr = (r, tr5) \<Longrightarrow> creates tr5 = creates tr"
  using probe_creates [of w hp i err tr] by simp

lemma probe_snd_dials:
  "probe w hp 0 err tr = (r, tr5) \<Longrightarrow> length (dials tr5) \<le> length (dials tr) + 10"
  using probe_dials_le [of w hp 0 err tr] by simp

subsection \<open>What the container is created with\<close>

text \<open>
  C2, as stated (the container is started with the suite's declared port, 8080 for the
  suite rr, and the PORT hint corresponds to it), fails: the one container created for
  the image of the suite exposes port 4321 and is told PORT=4321, while the suite
  declares 8080.
\<close>

theorem setup_exposes_4321_not_suite_port:
  "length (creates (snd (setUpContainerUsingPortEnvVar (ready_from 0) ''upper'' []))) = 1
   \<and> ExposedPorts (fst (hd (creates (snd (setUpContainerUsingPortEnvVar (ready_from 0)
        ''upper'' []))))) = {''4321''}
   \<and> Env (fst (hd (creates (snd (setUpContainerUsingPortEnvVar (ready_from 0)
        ''upper'' []))))) = [''PORT=4321'']
   \<and> itoa (Port Request_reply) = ''8080''
   \<and> SuiteName Request_reply = ''rr''
   \<and> ExposedPorts (fst (hd (creates (snd (setUpContainerUsingPortEnvVar (ready_from 0)
        ''upper'' []))))) \<noteq> {itoa (Port Request_reply)}
   \<and> Env (fst (hd (creates (snd (setUpContainerUsingPortEnvVar (ready_from 0)
        ''upper'' []))))) \<noteq> [''PORT='' @ itoa (Port Request_reply)]"
proof -
  have "itoa (Port Request_reply) = ''8080''"
    by (simp add: Request_reply_def itoa_def digits10.simps)
  moreover have "SuiteName Request_reply = ''rr''"
    by (simp add: Request_reply_def)
  moreover have "creates (snd (setUpContainerUsingPortEnvVar (ready_from 0) ''upper'' [])) =
      [(\<lparr>ConfigImage = ''upper'', ExposedPorts = {''4321''}, Env = [''PORT=4321'']\<rparr>,
        \<lparr>PortBindings = [''4321'' \<mapsto> [\<lparr>HostIP = ''0.0.0.0'', HostPort = itoa 32768\<rparr>]]\<rparr>)]"
    by (simp add: setUpContainerUsingPortEnvVar_def ready_from_def Let_def probe_unfold_ok
                  creates_append)
  ultimately show ?thesis by simp
qed

text \<open>
  C2, amended. The setup function does not read the suite's declared port. Once the
  image is pulled and a free host port \<open>hp\<close> is allocated, it asks the engine exactly once
  for a container of the image whose single exposed port is the fixed container port
  4321, bound to host address 0.0.0.0 and host port \<open>hp\<close>, with the environment
  PORT=4321, the number of that exposed port. A handle it returns carries \<open>hp\<close>.
\<close>

theorem setup_create_arguments:
  assumes "ImagePull w img = None" and "getFreePort w = Inr hp"
  shows "creates (snd (setUpContainerUsingPortEnvVar w img tr)) =
           creates tr @
             [(\<lparr>ConfigImage = img, ExposedPorts = {''4321''}, Env = [''PORT=4321'']\<rparr>,
               \<lparr>PortBindings = [''4321'' \<mapsto> [\<lparr>HostIP = ''0.0.0.0'', HostPort = itoa hp\<rparr>]]\<rparr>)]
         \<and> (\<forall>h. fst (setUpContainerUsingPortEnvVar w img tr) = Inr h \<longrightarrow> hostPort h = hp)"
proof -
  from setup_cases [of w img tr] show ?thesis
  proof cases
    case (pull e)
    with assms show ?thesis by simp
  next
    case (port e)
    with assms show ?thesis by simp
  next
    case (create hp' cfg hcfg e)
    with assms show ?thesis by (simp add: creates_append)
  next
    case (start hp' cfg hcfg c e)
    with assms show ?thesis by (simp add: creates_append)
  next
    case (probing hp' cfg hcfg c tr4)
    obtain r tr5 where p: "probe w hp' 0 None tr4 = (r, tr5)"
      by (cases "probe w hp' 0 None tr4")
    from probe_snd_creates [OF p] have "creates tr5 = creates tr4" .
    with probing p assms show ?thesis by (cases r) (simp_all add: creates_append)
  qed
qed

theorem setup_create_arguments_witness:
  "ImagePull (ready_from 2) ''upper'' = None \<and> getFreePort (ready_from 2) = Inr 32768
   \<and> creates (snd (setUpContainerUsingPortEnvVar (ready_from 2) ''upper'' [])) =
       [(\<lparr>ConfigImage = ''upper'', ExposedPorts = {''4321''}, Env = [''PORT=4321'']\<rparr>,
         \<lparr>PortBindings = [''4321'' \<mapsto> [\<lparr>HostIP = ''0.0.0.0'', HostPort = ''32768''\<rparr>]]\<rparr>)]"
proof -
  have a: "ImagePull (ready_from 2) ''upper'' = None" by (simp add: ready_from_def)
  have b: "getFreePort (ready_from 2) = Inr 32768" by (simp add: ready_from_def)
  have c: "itoa 32768 = ''32768''" by (simp add: itoa_def digits10.simps)
  show ?thesis using a b c setup_create_arguments [OF a b, of "[]"] by simp
qed

subsection \<open>The readiness loop\<close>

text \<open>
  C3. The readiness loop of the setup function makes at most ten connection attempts,
  whatever the world answers, and so does a whole call of setup. The loop is a total
  function: it always returns. When none of the ten attempts succeeds it has made
  exactly ten and returns an error, that of the tenth attempt; setup then returns an
  error and no handle.
\<close>

theorem probe_at_most_ten_attempts:
  "length (dials (snd (probe w hp 0 None tr))) \<le> length (dials tr) + 10
   \<and> length (dials (snd (setUpContainerUsingPortEnvVar w img tr))) \<le> length (dials tr) + 10
   \<and> ((\<forall>j<10. Dial w j ''tcp'' (dial_address hp) \<noteq> None) \<longrightarrow>
         fst (probe w hp 0 None tr) = Dial w 9 ''tcp'' (dial_address hp)
         \<and> (\<exists>e. fst (probe w hp 0 None tr) = Some e)
         \<and> length (dials (snd (probe w hp 0 None tr))) = length (dials tr) + 10)
   \<and> ((\<forall>j<10. \<forall>a. Dial w j ''tcp'' a \<noteq> None) \<longrightarrow>
         (\<exists>e. fst (setUpContainerUsingPortEnvVar w img tr) = Inl e))"
proof -
  have a: "length (dials (snd (probe w hp 0 None tr))) \<le> length (dials tr) + 10"
    using probe_dials_le [of w hp 0 None tr] by simp
  have b: "length (dials (snd (setUpContainerUsingPortEnvVar w img tr)))
             \<le> length (dials tr) + 10"
    using setup_cases [of w img tr]
  proof cases
    case (probing hp' cfg hcfg c tr4)
    obtain r tr5 where p: "probe w hp' 0 None tr4 = (r, tr5)"
      by (cases "probe w hp' 0 None tr4")
    from probe_snd_dials [OF p] have "length (dials tr5) \<le> length (dials tr4) + 10" .
    with probing p show ?thesis by (cases r) (simp_all add: dials_append)
  qed (simp_all add: dials_append)
  have c: "fst (probe w hp 0 None tr) = Dial w 9 ''tcp'' (dial_address hp)
         \<and> (\<exists>e. fst (probe w hp 0 None tr) = Some e)
         \<and> length (dials (snd (probe w hp 0 None tr))) = length (dials tr) + 10"
    if all: "\<forall>j<10. Dial w j ''tcp'' (dial_address hp) \<noteq> None"
  proof -
    have p: "probe w hp 0 None tr =
               (Dial w 9 ''tcp'' (dial_address hp),
                tr @ concat (map (failed_attempt w hp) [0..<10]))"
      using probe_all_fail [of 0 w hp None tr] all by simp
    from all have "Dial w 9 ''tcp'' (dial_address hp) \<noteq> None" by simp
    then obtain e where "Dial w 9 ''tcp'' (dial_address hp) = Some e" by blast
    with p show ?thesis by (simp add: dials_append dials_failed_attempts)
  qed
  have d: "\<exists>e. fst (setUpContainerUsingPortEnvVar w img tr) = Inl e"
    if all: "\<forall>j<10. \<forall>a. Dial w j ''tcp'' a \<noteq> None"
    using setup_cases [of w img tr]
  proof cases
    case (probing hp' cfg hcfg c tr4)
    have p: "probe w hp' 0 None tr4 =
               (Dial w 9 ''tcp'' (dial_address hp'),
                tr4 @ concat (map (failed_attempt w hp') [0..<10]))"
      using probe_all_fail [of 0 w hp' None tr4] all by simp
    from all have "Dial w 9 ''tcp'' (dial_address hp') \<noteq> None" by simp
    then obtain e where "Dial w 9 ''tcp'' (dial_address hp') = Some e" by blast
    with p probing show ?thesis by simp
  qed simp_all
  from a b c d show ?thesis by blast
qed

theorem probe_at_most_ten_attempts_witness:
  "Dial (ready_from 10) 9 ''tcp'' (dial_address 32768) = Some (Error ''connection refused'')
   \<and> fst (probe (ready_from 10) 32768 0 None []) = Some (Error ''connection refused'')
   \<and> length (dials (snd (probe (ready_from 10) 32768 0 None []))) = 10"
proof -
  have h: "\<forall>j<10. Dial (ready_from 10) j ''tcp'' (dial_address 32768) \<noteq> None"
    by (simp add: ready_from_def)
  have v: "Dial (ready_from 10) 9 ''tcp'' (dial_address 32768) = Some (Error ''connection refused'')"
    by (simp add: ready_from_def)
  show ?thesis
    using h v probe_at_most_ten_attempts [of "ready_from 10" 32768 "[]" "''upper''"]
    by simp
qed

text \<open>
  C4, as stated (a sleep occurs only between a failed attempt and the retry that follows
  it), fails: when the service never accepts, the loop makes ten attempts and sleeps ten
  times; the tenth sleep, of 5120 ms, is the last thing it does, and no retry follows.
\<close>

theorem probe_sleeps_after_last_attempt:
  "fst (probe (ready_from 10) 32768 0 None []) = Some (Error ''connection refused'')
   \<and> length (dials (snd (probe (ready_from 10) 32768 0 None []))) = 10
   \<and> length (sleeps (snd (probe (ready_from 10) 32768 0 None []))) = 10
   \<and> last (snd (probe (ready_from 10) 32768 0 None [])) = Ev_Sleep (5120 * Millisecond)"
proof -
  have p: "probe (ready_from 10) 32768 0 None [] =
             (Dial (ready_from 10) 9 ''tcp'' (dial_address 32768),
              [] @ concat (map (failed_attempt (ready_from 10) 32768) [0..<10]))"
    by (rule probe_all_fail) (simp_all add: ready_from_def)
  have u: "[0..<10] = [0..<9] @ [9]"
    by (simp add: upt_rec)
  show ?thesis
    unfolding p
    by (simp add: dials_failed_attempts sleeps_failed_attempts)
       (simp add: u failed_attempt_def backoff_def ready_from_def)
qed

text \<open>
  C4, amended. The loop attempts a TCP connection to localhost at the host port. Every
  failed attempt, the tenth included, is followed by a sleep of ten milliseconds times
  two to the power of the attempt's index, counted from zero. When attempt \<open>k\<close> is the
  first to succeed, the loop has made \<open>k\<close> failed attempts, each followed by its sleep,
  then the successful attempt, and returns no error. When all ten attempts fail, the
  loop has made ten attempts and ten sleeps and returns the error of the tenth attempt.
  The sleeps stay within the range of a 64-bit duration.
\<close>

theorem probe_backoff_schedule:
  "(\<forall>k<10. Dial w k ''tcp'' (dial_address hp) = None
        \<and> (\<forall>j<k. Dial w j ''tcp'' (dial_address hp) \<noteq> None) \<longrightarrow>
      probe w hp 0 None tr =
        (None, tr @ concat (map (failed_attempt w hp) [0..<k])
                  @ [Ev_Dial ''tcp'' (dial_address hp) None])
      \<and> sleeps (snd (probe w hp 0 None tr)) = sleeps tr @ map backoff [0..<k])
   \<and> ((\<forall>j<10. Dial w j ''tcp'' (dial_address hp) \<noteq> None) \<longrightarrow>
      probe w hp 0 None tr =
        (Dial w 9 ''tcp'' (dial_address hp), tr @ concat (map (failed_attempt w hp) [0..<10]))
      \<and> sleeps (snd (probe w hp 0 None tr)) = sleeps tr @ map backoff [0..<10])
   \<and> (\<forall>i. failed_attempt w hp i =
          [Ev_Dial ''tcp'' (''localhost:'' @ itoa hp) (Dial w i ''tcp'' (''localhost:'' @ itoa hp)),
           Ev_Sleep (backoff i)])
   \<and> (\<forall>i<10. backoff i = 10 * Millisecond * 2 ^ i \<and> 0 < backoff i \<and> backoff i < 2 ^ 63)
   \<and> Millisecond = 1000000"
proof -
  have a: "probe w hp 0 None tr =
        (None, tr @ concat (map (failed_attempt w hp) [0..<k])
                  @ [Ev_Dial ''tcp'' (dial_address hp) None])
      \<and> sleeps (snd (probe w hp 0 None tr)) = sleeps tr @ map backoff [0..<k]"
    if "k < 10" "Dial w k ''tcp'' (dial_address hp) = None"
       "\<forall>j<k. Dial w j ''tcp'' (dial_address hp) \<noteq> None" for k
  proof -
    have "probe w hp 0 None tr =
        (None, tr @ concat (map (failed_attempt w hp) [0..<k])
                  @ [Ev_Dial ''tcp'' (dial_address hp) None])"
      using probe_first_ok [of 0 k w hp None tr] that by simp
    then show ?thesis by (simp add: sleeps_append sleeps_failed_attempts)
  qed
  have b: "probe w hp 0 None tr =
        (Dial w 9 ''tcp'' (dial_address hp), tr @ concat (map (failed_attempt w hp) [0..<10]))
      \<and> sleeps (snd (probe w hp 0 None tr)) = sleeps tr @ map backoff [0..<10]"
    if "\<forall>j<10. Dial w j ''tcp'' (dial_address hp) \<noteq> None"
  proof -
    have "probe w hp 0 None tr =
        (Dial w 9 ''tcp'' (dial_address hp), tr @ concat (map (failed_attempt w hp) [0..<10]))"
      using probe_all_fail [of 0 w hp None tr] that by simp
    then show ?thesis by (simp add: sleeps_append sleeps_failed_attempts)
  qed
  have c: "\<forall>i. failed_attempt w hp i =
          [Ev_Dial ''tcp'' (''localhost:'' @ itoa hp) (Dial w i ''tcp'' (''localhost:'' @ itoa hp)),
           Ev_Sleep (backoff i)]"
    by (simp add: failed_attempt_def dial_address_def)
  have d: "\<forall>i<10. backoff i = 10 * Millisecond * 2 ^ i \<and> 0 < backoff i \<and> backoff i < 2 ^ 63"
    using backoff_bounds by (simp add: backoff_def)
  have e: "Millisecond = 1000000" by (simp add: Millisecond_def)
  from a b c d e show ?thesis by blast
qed

theorem probe_backoff_schedule_witness:
  "Dial (ready_from 2) 0 ''tcp'' (dial_address 32768) = Some (Error ''connection refused'')
   \<and> Dial (ready_from 2) 1 ''tcp'' (dial_address 32768) = Some (Error ''connection refused'')
   \<and> Dial (ready_from 2) 2 ''tcp'' (dial_address 32768) = None
   \<and> probe (ready_from 2) 32768 0 None [] =
       (None, [Ev_Dial ''tcp'' ''localhost:32768'' (Some (Error ''connection refused'')),
               Ev_Sleep 10000000,
               Ev_Dial ''tcp'' ''localhost:32768'' (Some (Error ''connection refused'')),
               Ev_Sleep 20000000,
               Ev_Dial ''tcp'' ''localhost:32768'' None])"
proof -
  have h0: "Dial (ready_from 2) 0 ''tcp'' (dial_address 32768) = Some (Error ''connection refused'')
            \<and> Dial (ready_from 2) 1 ''tcp'' (dial_address 32768)
                = Some (Error ''connection refused'')"
    by (simp add: ready_from_def)
  have h1: "Dial (ready_from 2) 2 ''tcp'' (dial_address 32768) = None"
    by (simp add: ready_from_def)
  have h2: "\<forall>j<2. Dial (ready_from 2) j ''tcp'' (dial_address 32768) \<noteq> None"
    by (simp add: ready_from_def)
  have u: "[0..<2] = [0, 1]" by (simp add: upt_rec)
  have i: "itoa 32768 = ''32768''" by (simp add: itoa_def digits10.simps)
  have "probe (ready_from 2) 32768 0 None [] =
        (None, [] @ concat (map (failed_attempt (ready_from 2) 32768) [0..<2])
                  @ [Ev_Dial ''tcp'' (dial_address 32768) None])"
    using probe_backoff_schedule [of "ready_from 2" 32768 "[]"] h1 h2 by simp
  then show ?thesis
    using h0 h1
    by (simp add: u i failed_attempt_def dial_address_def backoff_def Millisecond_def
                  ready_from_def)
qed

subsection \<open>The settle delay\<close>

lemma quiet_failed_attempts:
  assumes "k \<le> 10" and "\<forall>j<k. Dial w j ''tcp'' (dial_address hp) \<noteq> None"
  shows "Ev_Sleep (1000 * Millisecond) \<notin> set (concat (map (failed_attempt w hp) [0..<k]))
         \<and> (\<forall>n a. Ev_Dial n a None \<notin> set (concat (map (failed_attempt w hp) [0..<k])))"
proof -
  have s: "\<forall>j<k. backoff j \<noteq> 1000 * Millisecond"
    using assms(1) backoff_not_settle by simp
  have "e \<noteq> Ev_Sleep (1000 * Millisecond) \<and> (\<forall>n a. e \<noteq> Ev_Dial n a None)"
    if "e \<in> set (concat (map (failed_attempt w hp) [0..<k]))" for e
  proof -
    from that obtain j where j: "j < k" "e \<in> set (failed_attempt w hp j)" by auto
    from j(1) s have "backoff j \<noteq> 1000 * Millisecond" by simp
    moreover from j(1) assms(2) have "Dial w j ''tcp'' (dial_address hp) \<noteq> None" by simp
    ultimately show ?thesis using j(2) by (auto simp: failed_attempt_def)
  qed
  then show ?thesis by blast
qed

text \<open>
  C5. When setup returns a handle, the last two things it did were a successful
  connection to the handle's port and a sleep of 1000 ms; before them it made no
  successful connection and no sleep of 1000 ms, so the settle delay comes once, right
  after the first successful connection check. When setup returns an error, and so no
  handle, it made no successful connection and no sleep of 1000 ms.
\<close>

theorem settle_delay_iff_ready:
  "(\<forall>h. fst (setUpContainerUsingPortEnvVar w img tr) = Inr h \<longrightarrow>
      (\<exists>evs. snd (setUpContainerUsingPortEnvVar w img tr) =
                tr @ evs @ [Ev_Dial ''tcp'' (dial_address (hostPort h)) None,
                            Ev_Sleep (1000 * Millisecond)]
             \<and> Ev_Sleep (1000 * Millisecond) \<notin> set evs
             \<and> (\<forall>n a. Ev_Dial n a None \<notin> set evs)))
   \<and> (\<forall>e. fst (setUpContainerUsingPortEnvVar w img tr) = Inl e \<longrightarrow>
      (\<exists>evs. snd (setUpContainerUsingPortEnvVar w img tr) = tr @ evs
             \<and> Ev_Sleep (1000 * Millisecond) \<notin> set evs
             \<and> (\<forall>n a. Ev_Dial n a None \<notin> set evs)))
   \<and> 1000 * Millisecond = 1000000000"
proof -
  have m: "1000 * Millisecond = 1000000000" by (simp add: Millisecond_def)
  have main:
    "(\<forall>h. fst (setUpContainerUsingPortEnvVar w img tr) = Inr h \<longrightarrow>
      (\<exists>evs. snd (setUpContainerUsingPortEnvVar w img tr) =
                tr @ evs @ [Ev_Dial ''tcp'' (dial_address (hostPort h)) None,
                            Ev_Sleep (1000 * Millisecond)]
             \<and> Ev_Sleep (1000 * Millisecond) \<notin> set evs
             \<and> (\<forall>n a. Ev_Dial n a None \<notin> set evs)))
   \<and> (\<forall>e. fst (setUpContainerUsingPortEnvVar w img tr) = Inl e \<longrightarrow>
      (\<exists>evs. snd (setUpContainerUsingPortEnvVar w img tr) = tr @ evs
             \<and> Ev_Sleep (1000 * Millisecond) \<notin> set evs
             \<and> (\<forall>n a. Ev_Dial n a None \<notin> set evs)))"
    using setup_cases [of w img tr]
  proof cases
    case (probing hp cfg hcfg c tr4)
    let ?pre = "[Ev_ImagePull img None, Ev_getFreePort (Inr hp),
                 Ev_ContainerCreate cfg hcfg (Inr c), Ev_ContainerStart c None]"
    from probe_from_zero [of w hp None tr4]
    show ?thesis
    proof
      assume "\<exists>k<10. Dial w k ''tcp'' (dial_address hp) = None
                \<and> (\<forall>j<k. Dial w j ''tcp'' (dial_address hp) \<noteq> None)
                \<and> probe w hp 0 None tr4 =
                    (None, tr4 @ concat (map (failed_attempt w hp) [0..<k])
                              @ [Ev_Dial ''tcp'' (dial_address hp) None])"
      then obtain k where k: "k < 10"
          "\<forall>j<k. Dial w j ''tcp'' (dial_address hp) \<noteq> None"
          "probe w hp 0 None tr4 =
             (None, tr4 @ concat (map (failed_attempt w hp) [0..<k])
                       @ [Ev_Dial ''tcp'' (dial_address hp) None])"
        by blast
      let ?evs = "?pre @ concat (map (failed_attempt w hp) [0..<k])"
      from k(1) have "k \<le> 10" by simp
      from quiet_failed_attempts [OF this k(2)]
      have q: "Ev_Sleep (1000 * Millisecond) \<notin> set ?evs
               \<and> (\<forall>n a. Ev_Dial n a None \<notin> set ?evs)"
        by simp
      have res: "setUpContainerUsingPortEnvVar w img tr =
              (Inr \<lparr>id_Container = c, hostPort = hp\<rparr>,
               tr @ ?evs @ [Ev_Dial ''tcp'' (dial_address hp) None,
                            Ev_Sleep (1000 * Millisecond)])"
        using probing k(3) by simp
      show ?thesis
        unfolding res using q by (intro conjI allI impI exI [of _ ?evs]) auto
    next
      assume a: "(\<forall>j<10. Dial w j ''tcp'' (dial_address hp) \<noteq> None)
                \<and> probe w hp 0 None tr4 =
                    (Dial w 9 ''tcp'' (dial_address hp),
                     tr4 @ concat (map (failed_attempt w hp) [0..<10]))"
      then have "Dial w 9 ''tcp'' (dial_address hp) \<noteq> None" by simp
      then obtain e9 where e9: "Dial w 9 ''tcp'' (dial_address hp) = Some e9" by blast
      let ?evs = "?pre @ concat (map (failed_attempt w hp) [0..<10])"
      from a have "\<forall>j<10. Dial w j ''tcp'' (dial_address hp) \<noteq> None" by simp
      from quiet_failed_attempts [OF order_refl this]
      have q: "Ev_Sleep (1000 * Millisecond) \<notin> set ?evs
               \<and> (\<forall>n a. Ev_Dial n a None \<notin> set ?evs)"
        by simp
      have res: "setUpContainerUsingPortEnvVar w img tr = (Inl e9, tr @ ?evs)"
        using probing a e9 by simp
      show ?thesis
        unfolding res using q by (intro conjI allI impI exI [of _ ?evs]) auto
    qed
  qed simp_all
  from main m show ?thesis by blast
qed

theorem settle_delay_iff_ready_witness:
  "fst (setUpContainerUsingPortEnvVar (ready_from 1) ''upper'' []) =
     Inr \<lparr>id_Container = ''c1'', hostPort = 32768\<rparr>
   \<and> drop 6 (snd (setUpContainerUsingPortEnvVar (ready_from 1) ''upper'' [])) =
       [Ev_Dial ''tcp'' (dial_address 32768) None, Ev_Sleep (1000 * Millisecond)]
   \<and> take 2 (drop 4 (snd (setUpContainerUsingPortEnvVar (ready_from 1) ''upper'' []))) =
       [Ev_Dial ''tcp'' (dial_address 32768) (Some (Error ''connection refused'')),
        Ev_Sleep (10 * Millisecond)]
   \<and> fst (setUpContainerUsingPortEnvVar no_image ''upper'' []) =
       Inl (Error ''pull access denied'')
   \<and> snd (setUpContainerUsingPortEnvVar no_image ''upper'' []) =
       [Ev_ImagePull ''upper'' (Some (Error ''pull access denied''))]"
proof -
  have h: "fst (setUpContainerUsingPortEnvVar (ready_from 1) ''upper'' []) =
             Inr \<lparr>id_Container = ''c1'', hostPort = 32768\<rparr>"
    by (simp add: setUpContainerUsingPortEnvVar_def ready_from_def Let_def
                  probe_unfold_fail probe_unfold_ok)
  have s: "snd (setUpContainerUsingPortEnvVar (ready_from 1) ''upper'' []) =
      [Ev_ImagePull ''upper'' None, Ev_getFreePort (Inr 32768),
       Ev_ContainerCreate
         \<lparr>ConfigImage = ''upper'', ExposedPorts = {''4321''}, Env = [''PORT=4321'']\<rparr>
         \<lparr>PortBindings = [''4321'' \<mapsto> [\<lparr>HostIP = ''0.0.0.0'', HostPort = itoa 32768\<rparr>]]\<rparr>
         (Inr ''c1''),
       Ev_ContainerStart ''c1'' None,
       Ev_Dial ''tcp'' (dial_address 32768) (Some (Error ''connection refused'')),
       Ev_Sleep (10 * Millisecond),
       Ev_Dial ''tcp'' (dial_address 32768) None,
       Ev_Sleep (1000 * Millisecond)]"
    by (simp add: setUpContainerUsingPortEnvVar_def ready_from_def Let_def
                  probe_unfold_fail probe_unfold_ok failed_attempt_def backoff_def)
  have n: "setUpContainerUsingPortEnvVar no_image ''upper'' [] =
             (Inl (Error ''pull access denied''),
              [Ev_ImagePull ''upper'' (Some (Error ''pull access denied''))])"
    by (simp add: setUpContainerUsingPortEnvVar_def no_image_def ready_from_def Let_def)
  show ?thesis
    using h s n settle_delay_iff_ready [of "ready_from 1" "''upper''" "[]"]
      settle_delay_iff_ready [of no_image "''upper''" "[]"]
    by simp
qed

subsection \<open>The verification procedures\<close>



text \<open>
  C7. The content-negotiation case rr-0002 completes exactly when both exchanges are
  as expected. The POST to / with Content-Type text/plain, Accept text/plain and body
  hello is answered with status 200, the body HELLO and one Content-Type value whose
  media type is text/plain; and the same request with Accept application/json is
  answered with status 200, the body HELLO in double quotes and one Content-Type value
  whose media type is application/json. Otherwise the case ends with a failure signal.
\<close>

theorem rr_0002_completes_iff:
  "(rr_0002_T net port = Completed \<longleftrightarrow>
      (\<exists>r h. Do net (rr_0002_request port ''text/plain'') = Inr r
            \<and> StatusCode r = 200 \<and> Body r = Inr ''HELLO''
            \<and> header_values r ''Content-Type'' = [h]
            \<and> ParseMediaType net h = Inr ''text/plain'')
      \<and> (\<exists>r h. Do net (rr_0002_request port ''application/json'') = Inr r
            \<and> StatusCode r = 200 \<and> Body r = Inr (CHR 0x22 # ''HELLO'' @ [CHR 0x22])
            \<and> header_values r ''Content-Type'' = [h]
            \<and> ParseMediaType net h = Inr ''application/json''))
   \<and> (rr_0002_T net port = Completed \<or> (\<exists>p. rr_0002_T net port = Panic p))
   \<and> rr_0002_request port accept =
       \<lparr>Method = ''POST'', URL = ''http://localhost:'' @ itoa port @ ''/'',
        ReqHeader = [''Content-Type'' \<mapsto> [''text/plain''], ''Accept'' \<mapsto> [accept]],
        ReqBody = ''hello''\<rparr>
   \<and> T (Cases Request_reply ! 1) = rr_0002_T
   \<and> Name (Cases Request_reply ! 1) = ''rr-0002''"
proof -
  have chk: "check_negotiated net port accept expected msg = Completed \<longleftrightarrow>
      (\<exists>r h. Do net (rr_0002_request port accept) = Inr r
            \<and> StatusCode r = 200 \<and> Body r = Inr expected
            \<and> header_values r ''Content-Type'' = [h]
            \<and> ParseMediaType net h = Inr accept)" for accept expected msg
    by (auto simp: check_negotiated_def Let_def length_Suc_conv split: sum.splits)
  have a: "rr_0002_T net port = Completed \<longleftrightarrow>
      (\<exists>r h. Do net (rr_0002_request port ''text/plain'') = Inr r
            \<and> StatusCode r = 200 \<and> Body r = Inr ''HELLO''
            \<and> header_values r ''Content-Type'' = [h]
            \<and> ParseMediaType net h = Inr ''text/plain'')
      \<and> (\<exists>r h. Do net (rr_0002_request port ''application/json'') = Inr r
            \<and> StatusCode r = 200 \<and> Body r = Inr (CHR 0x22 # ''HELLO'' @ [CHR 0x22])
            \<and> header_values r ''Content-Type'' = [h]
            \<and> ParseMediaType net h = Inr ''application/json'')"
  proof -
    have "rr_0002_T net port = Completed \<longleftrightarrow>
            check_negotiated net port ''text/plain'' ''HELLO''
              ''Expected result as text/plain HELLO, got '' = Completed
            \<and> check_negotiated net port ''application/json'' (CHR 0x22 # ''HELLO'' @ [CHR 0x22])
                (''Expected result as application/json '' @ [CHR 0x22] @ ''HELLO'' @ [CHR 0x22]
                 @ '', got '') = Completed"
      by (simp add: rr_0002_T_def split: verdict.splits)
    then show ?thesis by (simp only: chk)
  qed
  have b: "rr_0002_T net port = Completed \<or> (\<exists>p. rr_0002_T net port = Panic p)"
    by (cases "rr_0002_T net port") simp_all
  have c: "rr_0002_request port accept =
       \<lparr>Method = ''POST'', URL = ''http://localhost:'' @ itoa port @ ''/'',
        ReqHeader = [''Content-Type'' \<mapsto> [''text/plain''], ''Accept'' \<mapsto> [accept]],
        ReqBody = ''hello''\<rparr>"
    by (simp add: rr_0002_request_def Header_Set_def NewRequest_def url_root_def)
  have d: "T (Cases Request_reply ! 1) = rr_0002_T \<and> Name (Cases Request_reply ! 1) = ''rr-0002''"
    by (simp add: Request_reply_def)
  from a b c d show ?thesis by blast
qed

theorem rr_0002_completes_iff_witness:
  "Do upper_net (rr_0002_request 8080 ''text/plain'') =
     Inr (plain_response 200 ''text/plain; charset=utf-8'' ''HELLO'')
   \<and> ParseMediaType upper_net ''text/plain; charset=utf-8'' = Inr ''text/plain''
   \<and> rr_0002_T upper_net 8080 = Completed
   \<and> rr_0002_T net499 8080 \<noteq> Completed"
proof -
  have i: "itoa 8080 = ''8080''" by (simp add: itoa_def digits10.simps)
  have p1: "Do upper_net (rr_0002_request 8080 ''text/plain'') =
              Inr (plain_response 200 ''text/plain; charset=utf-8'' ''HELLO'')"
    by (simp add: upper_net_def rr_0002_request_def Header_Set_def NewRequest_def url_root_def i)
  have p2: "Do upper_net (rr_0002_request 8080 ''application/json'') =
              Inr (plain_response 200 ''application/json'' (CHR 0x22 # ''HELLO'' @ [CHR 0x22]))"
    by (simp add: upper_net_def rr_0002_request_def Header_Set_def NewRequest_def url_root_def i)
  have m: "ParseMediaType upper_net ''text/plain; charset=utf-8'' = Inr ''text/plain''
           \<and> ParseMediaType upper_net ''application/json'' = Inr ''application/json''"
    by (simp add: upper_net_def sample_media_type_def)
  have q: "Do net499 (rr_0002_request 8080 ''text/plain'') =
             Inr \<lparr>StatusCode = 499, Header = Map.empty, Body = Inr ''nope''\<rparr>"
    by (simp add: net499_def)
  show ?thesis
    using p1 p2 m q rr_0002_completes_iff [of upper_net 8080 "''text/plain''"]
      rr_0002_completes_iff [of net499 8080 "''text/plain''"]
    by (simp add: plain_response_def header_values_def)
qed

text \<open>
  C8. The mandatory case rr-0004 posts the malformed JSON text made of a double quote
  followed by hello, with Content-Type application/json, to /. It completes exactly when
  the request is answered with a status code of at least 500; an answer with a status
  code below 500 ends the case with a failure signal naming the code.
\<close>

theorem rr_0004_completes_iff:
  "(rr_0004_T net port = Completed \<longleftrightarrow>
      (\<exists>response. Do net (rr_0004_request port) = Inr response \<and> 500 \<le> StatusCode response))
   \<and> (\<forall>response. Do net (rr_0004_request port) = Inr response \<and> StatusCode response < 500 \<longrightarrow>
          rr_0004_T net port =
            Panic (PanicMsg (''Expected 5xx http code, got '' @ itoa (StatusCode response))))
   \<and> rr_0004_request port =
       \<lparr>Method = ''POST'', URL = ''http://localhost:'' @ itoa port @ ''/'',
        ReqHeader = [''Content-Type'' \<mapsto> [''application/json''], ''Accept'' \<mapsto> [''text/plain'']],
        ReqBody = CHR 0x22 # ''hello''\<rparr>
   \<and> T (Cases Request_reply ! 3) = rr_0004_T
   \<and> Name (Cases Request_reply ! 3) = ''rr-0004''
   \<and> \<not> Optional (Cases Request_reply ! 3)"
proof -
  have a: "rr_0004_T net port = Completed \<longleftrightarrow>
      (\<exists>response. Do net (rr_0004_request port) = Inr response \<and> 500 \<le> StatusCode response)"
    by (auto simp: rr_0004_T_def split: sum.splits)
  have b: "\<forall>response. Do net (rr_0004_request port) = Inr response \<and> StatusCode response < 500 \<longrightarrow>
          rr_0004_T net port =
            Panic (PanicMsg (''Expected 5xx http code, got '' @ itoa (StatusCode response)))"
    by (simp add: rr_0004_T_def)
  have c: "rr_0004_request port =
       \<lparr>Method = ''POST'', URL = ''http://localhost:'' @ itoa port @ ''/'',
        ReqHeader = [''Content-Type'' \<mapsto> [''application/json''], ''Accept'' \<mapsto> [''text/plain'']],
        ReqBody = CHR 0x22 # ''hello''\<rparr>"
    by (simp add: rr_0004_request_def Header_Set_def NewRequest_def url_root_def)
  have d: "T (Cases Request_reply ! 3) = rr_0004_T \<and> Name (Cases Request_reply ! 3) = ''rr-0004''
           \<and> \<not> Optional (Cases Request_reply ! 3)"
    by (simp add: Request_reply_def)
  from a b c d show ?thesis by blast
qed

theorem rr_0004_completes_iff_witness:
  "Do net499 (rr_0004_request 8080) =
     Inr \<lparr>StatusCode = 499, Header = Map.empty, Body = Inr ''nope''\<rparr>
   \<and> rr_0004_T net499 8080 = Panic (PanicMsg ''Expected 5xx http code, got 499'')
   \<and> Do upper_net (rr_0004_request 8080) =
     Inr (plain_response 500 ''text/plain'' ''unmarshalling error'')
   \<and> rr_0004_T upper_net 8080 = Completed"
proof -
  have i: "itoa 8080 = ''8080''" by (simp add: itoa_def digits10.simps)
  have j: "itoa 499 = ''499''" by (simp add: itoa_def digits10.simps)
  have p: "Do net499 (rr_0004_request 8080) =
             Inr \<lparr>StatusCode = 499, Header = Map.empty, Body = Inr ''nope''\<rparr>"
    by (simp add: net499_def)
  have q: "Do upper_net (rr_0004_request 8080) =
             Inr (plain_response 500 ''text/plain'' ''unmarshalling error'')"
    by (simp add: upper_net_def rr_0004_request_def Header_Set_def NewRequest_def url_root_def i)
  show ?thesis
    using p q j rr_0004_completes_iff [of net499 8080] rr_0004_completes_iff [of upper_net 8080]
    by (simp add: plain_response_def)
qed

subsection \<open>The suite and its report\<close>




text \<open>
  C6. The overall status of a report is Failed exactly when some outcome that is not
  optional is Failed. For the suite rr, whose cases rr-0003 and rr-0005 are the optional
  ones, the overall status of a run is Failed exactly when the outcome of rr-0001,
  rr-0002 or rr-0004 is Failed, whatever the outcomes of rr-0003 and rr-0005.
\<close>

theorem overall_status_failed_iff:
  "(overall_status outcomes = Failed \<longleftrightarrow>
      (\<exists>out \<in> set outcomes. \<not> co_optional out \<and> co_status out = Failed))
   \<and> (overall_status outcomes = Passed \<longleftrightarrow>
      \<not> (\<exists>out \<in> set outcomes. \<not> co_optional out \<and> co_status out = Failed))
   \<and> (overall_status (Run Request_reply meets) = Failed \<longleftrightarrow>
      (\<exists>out \<in> set (Run Request_reply meets).
          co_name out \<in> {''rr-0001'', ''rr-0002'', ''rr-0004''} \<and> co_status out = Failed))
   \<and> map (\<lambda>c. (Name c, Optional c)) (Cases Request_reply) =
       [(''rr-0001'', False), (''rr-0002'', False), (''rr-0003'', True),
        (''rr-0004'', False), (''rr-0005'', True)]
   \<and> map co_name (Run Request_reply meets) = map Name (Cases Request_reply)
   \<and> map co_optional (Run Request_reply meets) = map Optional (Cases Request_reply)"
proof -
  have a: "overall_status outs = Failed \<longleftrightarrow>
      (\<exists>out \<in> set outs. \<not> co_optional out \<and> co_status out = Failed)" for outs
    by (auto simp: overall_status_def filter_empty_conv)
  have b: "overall_status outs = Passed \<longleftrightarrow>
      \<not> (\<exists>out \<in> set outs. \<not> co_optional out \<and> co_status out = Failed)" for outs
    by (auto simp: overall_status_def filter_empty_conv)
  have nm: "co_name (run_case met c) = Name c \<and> co_optional (run_case met c) = Optional c"
    for met c
    by (simp add: run_case_def split: sum.splits verdict.splits)
  have d: "map (\<lambda>c. (Name c, Optional c)) (Cases Request_reply) =
       [(''rr-0001'', False), (''rr-0002'', False), (''rr-0003'', True),
        (''rr-0004'', False), (''rr-0005'', True)]"
    by (simp add: Request_reply_def)
  have e: "map co_name (Run Request_reply meets) = map Name (Cases Request_reply)
           \<and> map co_optional (Run Request_reply meets) = map Optional (Cases Request_reply)"
    by (simp add: Run_def nm)
  have c: "overall_status (Run Request_reply meets) = Failed \<longleftrightarrow>
      (\<exists>out \<in> set (Run Request_reply meets).
          co_name out \<in> {''rr-0001'', ''rr-0002'', ''rr-0004''} \<and> co_status out = Failed)"
    unfolding a by (simp add: Run_def Request_reply_def nm)
  from a [of outcomes] b [of outcomes] c d e show ?thesis by blast
qed

theorem overall_status_failed_iff_witness:
  "overall_status
     (Run Request_reply (\<lambda>c. (Inr \<lparr>id_Container = ''c1'', hostPort = 8080\<rparr>, upper_net))) = Passed
   \<and> overall_status
     (Run Request_reply (\<lambda>c. (Inr \<lparr>id_Container = ''c1'', hostPort = 8080\<rparr>, echo_net))) = Failed"
proof -
  have i: "itoa 8080 = ''8080''" by (simp add: itoa_def digits10.simps)
  let ?up = "\<lambda>c::Testcase. (Inr \<lparr>id_Container = ''c1'', hostPort = 8080\<rparr> :: error + Container, upper_net)"
  let ?ec = "\<lambda>c::Testcase. (Inr \<lparr>id_Container = ''c1'', hostPort = 8080\<rparr> :: error + Container, echo_net)"
  have u1: "rr_0001_T upper_net 8080 = Completed"
    by (simp add: rr_0001_T_def http_Post_def upper_net_def url_bogus_def i Header_Set_def
                  NewRequest_def rr_0001_put_def plain_response_def)
  have u2: "rr_0002_T upper_net 8080 = Completed"
    by (simp add: rr_0002_T_def check_negotiated_def upper_net_def rr_0002_request_def
                  Header_Set_def NewRequest_def url_root_def i plain_response_def
                  header_values_def sample_media_type_def)
  have u4: "rr_0004_T upper_net 8080 = Completed"
    by (simp add: rr_0004_T_def upper_net_def rr_0004_request_def Header_Set_def
                  NewRequest_def url_root_def i plain_response_def)
  have e1: "rr_0001_T echo_net 8080 = Panic (PanicMsg exposed_only_msg)"
    by (simp add: rr_0001_T_def http_Post_def echo_net_def plain_response_def)
  have s1: "co_status (run_case (?up c) c) = Failed \<longleftrightarrow> T c upper_net 8080 \<noteq> Completed" for c
    by (simp add: run_case_def split: verdict.splits)
  have s2: "co_status (run_case (?ec c) c) = Failed \<longleftrightarrow> T c echo_net 8080 \<noteq> Completed" for c
    by (simp add: run_case_def split: verdict.splits)
  have nm: "co_name (run_case met c) = Name c"
    for met c
    by (simp add: run_case_def split: sum.splits verdict.splits)
  have f1: "\<not> (\<exists>out \<in> set (Run Request_reply ?up).
          co_name out \<in> {''rr-0001'', ''rr-0002'', ''rr-0004''} \<and> co_status out = Failed)"
    by (simp add: Run_def Request_reply_def nm s1 u1 u2 u4)
  have f2: "\<exists>out \<in> set (Run Request_reply ?ec).
          co_name out \<in> {''rr-0001'', ''rr-0002'', ''rr-0004''} \<and> co_status out = Failed"
    by (simp add: Run_def Request_reply_def nm s2 e1)
  from f1 overall_status_failed_iff [of "Run Request_reply ?up" ?up]
  have r1: "overall_status (Run Request_reply ?up) = Passed" by blast
  from f2 overall_status_failed_iff [of "Run Request_reply ?ec" ?ec]
  have r2: "overall_status (Run Request_reply ?ec) = Failed" by blast
  from r1 r2 show ?thesis by simp
qed

end
